theory Spec2Isabelle
  imports Main
begin

section \<open>Go values used by main.go\<close>

text \<open>
  A Go \<^verbatim>\<open>error\<close> is represented by its message; a result of type \<^verbatim>\<open>error\<close> is an
  \<open>error option\<close> where \<open>None\<close> is \<^verbatim>\<open>nil\<close>. A call returning \<^verbatim>\<open>(v, err)\<close> is a sum
  \<open>error + 'v\<close> with \<open>Inl\<close> the error. A run-time panic is a value as well: an
  expression that can panic has type \<open>panic + 'v\<close>, and a function body ends in an
  \<open>outcome\<close>.
\<close>

type_synonym error = string
type_synonym panic = string

datatype outcome = Return "error option" | Panicked panic

text \<open>\<^verbatim>\<open>strings.HasPrefix\<close> and \<^verbatim>\<open>strings.TrimPrefix\<close> of the Go standard library.\<close>

definition HasPrefix :: "string \<Rightarrow> string \<Rightarrow> bool" where
  "HasPrefix s pre = (length pre \<le> length s \<and> take (length pre) s = pre)"

definition TrimPrefix :: "string \<Rightarrow> string \<Rightarrow> string" where
  "TrimPrefix s pre = (if HasPrefix s pre then drop (length pre) s else s)"

text \<open>
  The slice expression \<^verbatim>\<open>s[lo:hi]\<close> on a string: Go panics unless
  \<^verbatim>\<open>lo <= hi <= len(s)\<close>. Strings are byte sequences, as in Go.
\<close>

definition slice :: "string \<Rightarrow> nat \<Rightarrow> nat \<Rightarrow> panic + string" where
  "slice s lo hi =
     (if lo \<le> hi \<and> hi \<le> length s then Inr (take (hi - lo) (drop lo s))
      else Inl ''slice bounds out of range'')"

text \<open>\<^verbatim>\<open>fmt.Sprintf("%d", n)\<close> for a length \<open>n\<close>: the decimal digits of \<open>n\<close>.\<close>

function itoa :: "nat \<Rightarrow> string" where
  "itoa n =
     (if n < 10 then [''0123456789'' ! n]
      else itoa (n div 10) @ [''0123456789'' ! (n mod 10)])"
  by pat_completeness auto
termination
  by (relation "measure id") auto

declare itoa.simps [simp del]

text \<open>The value of a decimal digit, to read the output of \<open>itoa\<close> back.\<close>

definition digit_value :: "char \<Rightarrow> nat" where
  "digit_value c = of_char c - 48"

section \<open>Data of the program and of its collaborators\<close>

text \<open>The configuration \<^verbatim>\<open>type handler struct\<close> (main.go, lines 31-39).\<close>

record handler =
  SlackToken :: string
  GithubToken :: string
  GithubOrg :: string
  GithubRepo :: string
  DockerImagePrefix :: string
  K8sNamespace :: string
  K8sDeployment :: string

text \<open>
  \<^verbatim>\<open>github.RepositoryCommit\<close>: only its field \<^verbatim>\<open>SHA *string\<close> is read; a \<^verbatim>\<open>nil\<close>
  pointer is \<open>None\<close>, a pointer to the empty string is \<open>Some ''''\<close>. The elements of
  the list \<^verbatim>\<open>ListCommits\<close> returns are taken to be non-\<^verbatim>\<open>nil\<close>.
\<close>

record RepositoryCommit =
  SHA :: "string option"

text \<open>\<^verbatim>\<open>slack.Channel\<close>: the fields \<^verbatim>\<open>ID\<close> and \<^verbatim>\<open>Members\<close> are read.\<close>

record slack_Channel =
  ID :: string
  Members :: "string list"

text \<open>
  \<^verbatim>\<open>slack.RTMEvent\<close> with its \<^verbatim>\<open>Type\<close> and its \<^verbatim>\<open>Data\<close>. The type switch of \<^verbatim>\<open>run\<close>
  tells \<^verbatim>\<open>*slack.HelloEvent\<close>, \<^verbatim>\<open>*slack.MessageEvent\<close> (fields \<^verbatim>\<open>User\<close>, \<^verbatim>\<open>Text\<close>,
  \<^verbatim>\<open>Channel\<close>) and everything else, which carries the name of its Go type for \<^verbatim>\<open>%T\<close>.
\<close>

datatype event_data =
    HelloEvent
  | MessageEvent (User: string) (Text: string) (Channel: string)
  | OtherEvent string

record RTMEvent =
  Type :: string
  Data :: event_data

fun type_name :: "event_data \<Rightarrow> string" where
  "type_name HelloEvent = ''*slack.HelloEvent''"
| "type_name (MessageEvent u t c) = ''*slack.MessageEvent''"
| "type_name (OtherEvent n) = n"

text \<open>
  What the program does to the outside, in the order it does it:
  \<^item> \<open>SendMessage channel text\<close>: \<^verbatim>\<open>rtm.SendMessage(rtm.NewOutgoingMessage(text, channel))\<close>;
  \<^item> \<open>LogPrintf format args\<close>: a \<^verbatim>\<open>Printf\<close> on a logger (standard error), unformatted;
  \<^item> \<open>LogFatal msg\<close>: \<^verbatim>\<open>log.Fatal\<close> of \<^verbatim>\<open>main\<close>;
  \<^item> \<open>ListCommitsCall org repo\<close>: the request \<^verbatim>\<open>cl.Repositories.ListCommits\<close>;
  \<^item> \<open>Exec argv\<close>: \<^verbatim>\<open>exec.Command(argv...).CombinedOutput()\<close>.
\<close>

datatype effect =
    SendMessage string string
  | LogPrintf string "string list"
  | LogFatal string
  | ListCommitsCall string string
  | Exec "string list"

text \<open>\<^verbatim>\<open>type printer func(string)\<close>: calling it is one effect.\<close>

type_synonym printer = "string \<Rightarrow> effect"

text \<open>
  \<^verbatim>\<open>*cli.Context\<close> is read only through \<^verbatim>\<open>ctx.String(name)\<close>, the value of a string
  flag (\<^verbatim>\<open>""\<close> when it is not set).
\<close>

type_synonym Context = "string \<Rightarrow> string"

text \<open>
  The collaborators a command talks to while one event is handled. Each is a parameter
  of every theorem:
  \<^item> \<open>ListCommits token org repo\<close>: the commit list of the source-control API, or its error;
  \<^item> \<open>CombinedOutput argv\<close>: the combined output of the subprocess and its error;
  \<^item> \<open>shellwords_Parse line\<close>: \<^verbatim>\<open>shellwords.Parse\<close>;
  \<^item> \<open>cli_usage args\<close> and \<open>cli_parse_flags flags args\<close>: the texts and the flag parser
    of the command framework (see \<open>App_Run\<close>).
\<close>

record world =
  ListCommits :: "string \<Rightarrow> string \<Rightarrow> string \<Rightarrow> error + RepositoryCommit list"
  CombinedOutput :: "string list \<Rightarrow> string \<times> error option"
  shellwords_Parse :: "string \<Rightarrow> error + string list"
  cli_usage :: "string list \<Rightarrow> string"
  cli_parse_flags :: "string list \<Rightarrow> string list \<Rightarrow> string + Context"

text \<open>The chat client at startup: \<^verbatim>\<open>cl.AuthTest()\<close> and \<^verbatim>\<open>cl.GetChannels(excludeArchived)\<close>.\<close>

record slack_Client =
  AuthTest :: "string \<Rightarrow> error + string"
  GetChannels :: "bool \<Rightarrow> error + slack_Channel list"

section \<open>The deploy command (main.go, lines 148-189)\<close>

text \<open>
  The closure of lines 160-168 that computes \<^verbatim>\<open>sha\<close>: the first commit whose \<^verbatim>\<open>SHA\<close>
  is not \<^verbatim>\<open>nil\<close> decides, with \<^verbatim>\<open>s[0:12]\<close>; \<^verbatim>\<open>""\<close> when there is none.
\<close>

text \<open>
  In \<open>deployCmd\<close> below, \<^verbatim>\<open>h.githubClientFromENV()\<close> (lines 191-195) always returns a
  \<^verbatim>\<open>nil\<close> error, so its error branch (line 152) has no case. The subprocess command
  lines are those of lines 175 and 181.
\<close>

fun deployCmd_sha :: "RepositoryCommit list \<Rightarrow> panic + string" where
  "deployCmd_sha [] = Inr ''''"
| "deployCmd_sha (c # cs) =
     (case SHA c of
        None \<Rightarrow> deployCmd_sha cs
      | Some s \<Rightarrow> slice s 0 12)"

definition set_image_argv :: "handler \<Rightarrow> string \<Rightarrow> string list" where
  "set_image_argv h img =
     [''kubectl'', ''-n'', K8sNamespace h, ''set'', ''image'',
      ''deployments/'' @ K8sDeployment h, ''*='' @ img]"

definition rollout_status_argv :: "handler \<Rightarrow> string list" where
  "rollout_status_argv h =
     [''kubectl'', ''-n'', K8sNamespace h, ''rollout'', ''status'',
      ''deployments/'' @ K8sDeployment h]"

definition deployCmd :: "handler \<Rightarrow> world \<Rightarrow> printer \<Rightarrow> Context \<Rightarrow> effect list \<times> outcome" where
  "deployCmd h w p ctx =
     (let e0 = [p ''about to deploy'', ListCommitsCall (GithubOrg h) (GithubRepo h)] in
      case ListCommits w (GithubToken h) (GithubOrg h) (GithubRepo h) of
        Inl err \<Rightarrow> (e0, Return (Some err))
      | Inr list \<Rightarrow>
          (case deployCmd_sha list of
             Inl msg \<Rightarrow> (e0, Panicked msg)
           | Inr sha \<Rightarrow>
               if sha = '''' then (e0, Return (Some ''no sha found''))
               else
                 let img = DockerImagePrefix h @ '':'' @ sha;
                     e1 = e0 @ [p (itoa (length list) @ '' commits''),
                                p (''deploying image '' @ img),
                                Exec (set_image_argv h img)]
                 in case CombinedOutput w (set_image_argv h img) of
                      (b, Some err) \<Rightarrow> (e1 @ [p (''ERROR: '' @ b)], Return None)
                    | (b, None) \<Rightarrow>
                        let e2 = e1 @ [p b, Exec (rollout_status_argv h)]
                        in case CombinedOutput w (rollout_status_argv h) of
                             (b', Some err) \<Rightarrow> (e2 @ [p (''ERROR: '' @ b')], Return None)
                           | (b', None) \<Rightarrow>
                               (e2 @ [p b', p ''finished deployment''], Return None)))"

section \<open>The pods command (main.go, lines 197-210)\<close>

definition podsCmd :: "world \<Rightarrow> printer \<Rightarrow> Context \<Rightarrow> effect list \<times> outcome" where
  "podsCmd w p ctx =
     (let n = ctx ''namespace'';
          args = [''get'', ''pods''] @ (if n \<noteq> '''' then [''-n'', n] else []);
          argv = ''kubectl'' # args
      in case CombinedOutput w argv of
           (b, Some err) \<Rightarrow>
             ([p ''about to list pods'', Exec argv, LogPrintf ''err=%q'' [b]], Return None)
         | (b, None) \<Rightarrow>
             ([p ''about to list pods'', Exec argv, p (''```'' @ b @ ''```'')], Return None))"

section \<open>The command router\<close>

text \<open>\<^verbatim>\<open>cli.Command\<close> as \<^verbatim>\<open>run\<close> fills it: a name, an action and the names of its string flags.\<close>

record Command =
  Name :: string
  Action :: "Context \<Rightarrow> effect list \<times> outcome"
  Flags :: "string list"

definition adapt ::
  "printer \<Rightarrow> (printer \<Rightarrow> Context \<Rightarrow> effect list \<times> outcome) \<Rightarrow> Context \<Rightarrow> effect list \<times> outcome" where
  "adapt p f = (\<lambda>ctx. f p ctx)"

text \<open>
  Modelled from the spec: \<^verbatim>\<open>app.Run\<close> of the command framework (package
  \<^verbatim>\<open>github.com/urfave/cli\<close>), whose code is not part of the repository. Section 4.2 of
  the specification: the first token after the program name is looked up in the command
  table; an unknown command makes the framework write its usage or error text to the
  writer and invokes no handler; for a known command the remaining tokens are parsed
  against its declared flags and the handler is invoked with the parsed arguments. The
  texts (\<open>cli_usage\<close>) and the flag parser (\<open>cli_parse_flags\<close>, \<open>Inl\<close> the text written
  when the tokens are refused) are parameters.

  The result is the text written to \<^verbatim>\<open>app.Writer\<close> and \<^verbatim>\<open>app.ErrWriter\<close>, the effects
  of the handler, and the panic that escaped, if any. The error \<^verbatim>\<open>app.Run\<close> returns is
  left out: \<^verbatim>\<open>run\<close> discards it (line 130) and \<^verbatim>\<open>app.ExitErrHandler\<close> is a function
  that does nothing (line 122).
\<close>

definition App_Run :: "world \<Rightarrow> Command list \<Rightarrow> string list \<Rightarrow> string \<times> effect list \<times> panic option" where
  "App_Run w commands arguments =
     (case tl arguments of
        [] \<Rightarrow> (cli_usage w [], [], None)
      | name # rest \<Rightarrow>
          (case find (\<lambda>c. Name c = name) commands of
             None \<Rightarrow> (cli_usage w (name # rest), [], None)
           | Some c \<Rightarrow>
               (case cli_parse_flags w (Flags c) rest of
                  Inl txt \<Rightarrow> (txt, [], None)
                | Inr ctx \<Rightarrow>
                    (case Action c ctx of
                       (effs, Return err) \<Rightarrow> ('''', effs, None)
                     | (effs, Panicked msg) \<Rightarrow> ('''', effs, Some msg)))))"

section \<open>The event loop (main.go, lines 55-138)\<close>

text \<open>\<^verbatim>\<open>app.Commands\<close> of lines 114-121.\<close>

definition app_Commands :: "handler \<Rightarrow> world \<Rightarrow> printer \<Rightarrow> Command list" where
  "app_Commands h w p =
     [\<lparr>Name = ''pods'', Action = adapt p (podsCmd w), Flags = [''namespace'']\<rparr>,
      \<lparr>Name = ''deploy'', Action = adapt p (deployCmd h w), Flags = []\<rparr>]"

datatype status = Continue | Crashed panic

text \<open>
  One iteration of \<^verbatim>\<open>for c := range rtm.IncomingEvents\<close> (lines 94-135), for the
  identity \<open>UserID\<close> and the channel \<open>channelID\<close> found at startup.
\<close>

definition handle_event ::
  "handler \<Rightarrow> world \<Rightarrow> string \<Rightarrow> string \<Rightarrow> RTMEvent \<Rightarrow> effect list \<times> status" where
  "handle_event h w UserID channelID c =
     (let l = LogPrintf ''%s %T'' [Type c, type_name (Data c)] in
      case Data c of
        HelloEvent \<Rightarrow> ([l, SendMessage channelID ''Hi there''], Continue)
      | OtherEvent n \<Rightarrow> ([l], Continue)
      | MessageEvent user text channel \<Rightarrow>
          if user = UserID then ([l], Continue)
          else if \<not> HasPrefix text ''!'' then ([l], Continue)
          else
            (let printer = (\<lambda>s. SendMessage channel s) in
             (case shellwords_Parse w (TrimPrefix text ''!'') of
                Inl err \<Rightarrow> ([l, printer (''error: '' @ err)], Continue)
              | Inr args \<Rightarrow>
                  (case App_Run w (app_Commands h w printer) (''foo'' # args) of
                     (buf, effs, Some msg) \<Rightarrow> (l # effs, Crashed msg)
                   | (buf, effs, None) \<Rightarrow>
                       (l # effs @
                          (if length buf > 0 then [printer (''```'' @ buf @ ''```'')] else []),
                        Continue)))))"

text \<open>
  The loop over the feed: the list holds the events delivered until the feed is closed,
  and \<open>ws n\<close> is the world while the \<open>n\<close>-th event is handled. A panic ends the loop
  (and the process); a closed feed makes \<^verbatim>\<open>run\<close> return \<^verbatim>\<open>nil\<close>.
\<close>

fun event_loop ::
  "handler \<Rightarrow> (nat \<Rightarrow> world) \<Rightarrow> string \<Rightarrow> string \<Rightarrow> nat \<Rightarrow> RTMEvent list \<Rightarrow> effect list \<times> outcome" where
  "event_loop h ws UserID channelID n [] = ([], Return None)"
| "event_loop h ws UserID channelID n (c # cs) =
     (case handle_event h (ws n) UserID channelID c of
        (effs, Crashed msg) \<Rightarrow> (effs, Panicked msg)
      | (effs, Continue) \<Rightarrow>
          (case event_loop h ws UserID channelID (Suc n) cs of
             (effs', r) \<Rightarrow> (effs @ effs', r)))"

text \<open>
  Lines 71-84: the channels that have the bot among their members, collected in the
  order of the listing.
\<close>

fun is_member :: "string \<Rightarrow> string list \<Rightarrow> bool" where
  "is_member u [] = False"
| "is_member u (m # ms) = (if m = u then True else is_member u ms)"

fun collect_chans :: "string \<Rightarrow> string list \<Rightarrow> slack_Channel list \<Rightarrow> string list" where
  "collect_chans u chans [] = chans"
| "collect_chans u chans (c # cs) =
     (if is_member u (Members c) then collect_chans u (chans @ [ID c]) cs
      else collect_chans u chans cs)"

definition run ::
  "handler \<Rightarrow> slack_Client \<Rightarrow> (nat \<Rightarrow> world) \<Rightarrow> RTMEvent list \<Rightarrow> effect list \<times> outcome" where
  "run h cl ws feed =
     (case AuthTest cl (SlackToken h) of
        Inl err \<Rightarrow> ([], Return (Some err))
      | Inr UserID \<Rightarrow>
          (case GetChannels cl True of
             Inl err \<Rightarrow> ([LogPrintf UserID []], Return (Some err))
           | Inr list \<Rightarrow>
               let chans = collect_chans UserID [] list in
               if length chans \<noteq> 1
               then ([LogPrintf UserID []], Return (Some ''must only be in one channel''))
               else
                 let channelID = chans ! 0 in
                 case event_loop h ws UserID channelID 0 feed of
                   (effs, r) \<Rightarrow>
                     ([LogPrintf UserID [], LogPrintf ''channel=%s'' [channelID]] @ effs, r)))"

section \<open>The process (main.go, lines 20-53)\<close>

definition newHandler :: "(string \<Rightarrow> string) \<Rightarrow> handler" where
  "newHandler Getenv =
     \<lparr>SlackToken = Getenv ''SLACK_TOKEN'',
      GithubToken = Getenv ''GITHUB_TOKEN'',
      GithubOrg = Getenv ''GITHUB_ORG'',
      GithubRepo = Getenv ''GITHUB_REPO'',
      DockerImagePrefix = Getenv ''DOCKER_IMAGE_PREFIX'',
      K8sNamespace = Getenv ''K8S_NAMESPACE'',
      K8sDeployment = Getenv ''K8S_DEPLOYMENT''\<rparr>"

text \<open>
  How the process ends: \<^verbatim>\<open>log.Fatal\<close> exits with status 1, a return from \<^verbatim>\<open>main\<close> with
  status 0, an escaped panic kills the process.
\<close>

datatype process_end = Exit nat | Killed panic

definition main_go ::
  "(string \<Rightarrow> string) \<Rightarrow> slack_Client \<Rightarrow> (nat \<Rightarrow> world) \<Rightarrow> RTMEvent list \<Rightarrow> effect list \<times> process_end" where
  "main_go Getenv cl ws feed =
     (case run (newHandler Getenv) cl ws feed of
        (effs, Return (Some err)) \<Rightarrow> (effs @ [LogFatal err], Exit 1)
      | (effs, Return None) \<Rightarrow> (effs, Exit 0)
      | (effs, Panicked msg) \<Rightarrow> (effs, Killed msg))"

section \<open>Observations and example inputs\<close>

text \<open>
  \<open>sent\<close> keeps the chat messages of a run, as pairs of channel and text, in the order
  they are sent; \<open>execs\<close> keeps the command lines of the subprocesses it starts.
\<close>

fun sent :: "effect list \<Rightarrow> (string \<times> string) list" where
  "sent [] = []"
| "sent (SendMessage channel txt # es) = (channel, txt) # sent es"
| "sent (e # es) = sent es"

fun execs :: "effect list \<Rightarrow> string list list" where
  "execs [] = []"
| "execs (Exec argv # es) = argv # execs es"
| "execs (e # es) = execs es"

text \<open>
  Concrete inputs for the examples: a configuration, a world that answers every commit
  request with the given list and runs subprocesses with the given function, and a chat
  client whose identity is \<open>U1\<close>.
\<close>

definition demo_handler :: handler where
  "demo_handler =
     \<lparr>SlackToken = ''xoxb'', GithubToken = ''ghp'', GithubOrg = ''org'', GithubRepo = ''repo'',
      DockerImagePrefix = ''myimage'', K8sNamespace = ''prod'', K8sDeployment = ''web''\<rparr>"

definition demo_world :: "RepositoryCommit list \<Rightarrow> (string list \<Rightarrow> string \<times> error option) \<Rightarrow> world" where
  "demo_world commits kubectl =
     \<lparr>ListCommits = (\<lambda>token org repo. Inr commits),
      CombinedOutput = kubectl,
      shellwords_Parse = (\<lambda>line. Inr [line]),
      cli_usage = (\<lambda>args. ''No help topic''),
      cli_parse_flags = (\<lambda>flags args. Inr (\<lambda>name. ''''))\<rparr>"

definition demo_client :: "slack_Channel list \<Rightarrow> slack_Client" where
  "demo_client channels =
     \<lparr>AuthTest = (\<lambda>token. Inr ''U1''), GetChannels = (\<lambda>excludeArchived. Inr channels)\<rparr>"

section \<open>Auxiliary facts\<close>

text \<open>\<open>itoa n\<close> is the decimal numeral of \<open>n\<close>.\<close>

lemma digit_value_digit:
  assumes "d < 10"
  shows "digit_value (''0123456789'' ! d) = d"
proof -
  from assms have "d = 0 \<or> d = 1 \<or> d = 2 \<or> d = 3 \<or> d = 4 \<or> d = 5 \<or> d = 6 \<or> d = 7 \<or> d = 8 \<or> d = 9"
    by arith
  then show ?thesis
    by (elim disjE) (simp_all add: digit_value_def)
qed

lemma itoa_decimal: "foldl (\<lambda>a c. 10 * a + digit_value c) 0 (itoa n) = n"
proof (induction n rule: itoa.induct)
  case (1 n)
  show ?case
  proof (cases "n < 10")
    case True
    then show ?thesis
      by (subst itoa.simps) (simp add: digit_value_digit)
  next
    case False
    have "n mod 10 < 10" by simp
    with False "1.IH" show ?thesis
      by (subst itoa.simps) (simp add: digit_value_digit)
  qed
qed

text \<open>Facts about the observations and about the parts of the program.\<close>

lemma sent_append: "sent (xs @ ys) = sent xs @ sent ys"
  by (induction xs rule: sent.induct) simp_all

lemma execs_append: "execs (xs @ ys) = execs xs @ execs ys"
  by (induction xs rule: execs.induct) simp_all

lemma sent_logs: "sent (map (\<lambda>c. LogPrintf (f c) (g c)) feed) = []"
  by (induction feed) simp_all

lemma execs_logs: "execs (map (\<lambda>c. LogPrintf (f c) (g c)) feed) = []"
  by (induction feed) simp_all

lemma deployCmd_sha_absent:
  "find (\<lambda>c. SHA c \<noteq> None) list = None \<Longrightarrow> deployCmd_sha list = Inr ''''"
  by (induction list) (auto split: option.splits if_splits)

lemma deployCmd_sha_present:
  "find (\<lambda>c. SHA c \<noteq> None) list = Some c \<Longrightarrow> SHA c = Some s \<Longrightarrow>
   deployCmd_sha list = slice s 0 12"
  by (induction list) (auto split: option.splits if_splits)

lemma finished_last:
  "last (sent (fst (deployCmd h w (SendMessage channel) ctx))) = (channel, ''finished deployment'') \<Longrightarrow>
   \<exists>list sha b b'.
      ListCommits w (GithubToken h) (GithubOrg h) (GithubRepo h) = Inr list \<and>
      deployCmd_sha list = Inr sha \<and> sha \<noteq> '''' \<and>
      CombinedOutput w (set_image_argv h (DockerImagePrefix h @ '':'' @ sha)) = (b, None) \<and>
      CombinedOutput w (rollout_status_argv h) = (b', None)"
  by (auto simp: deployCmd_def Let_def split: sum.splits if_splits prod.splits option.splits)

lemma sent_deployCmd:
  "fst ` set (sent (fst (deployCmd h w (SendMessage k) ctx))) \<subseteq> {k}"
  by (simp add: deployCmd_def Let_def split: sum.splits option.splits prod.splits)

lemma sent_podsCmd:
  "fst ` set (sent (fst (podsCmd w (SendMessage k) ctx))) \<subseteq> {k}"
  by (simp add: podsCmd_def Let_def split: option.splits prod.splits)

lemma is_member_iff: "is_member u ms = (u \<in> set ms)"
  by (induction ms) auto

lemma collect_chans_eq:
  "collect_chans u chans list = chans @ map ID (filter (\<lambda>c. u \<in> set (Members c)) list)"
  by (induction list arbitrary: chans) (simp_all add: is_member_iff)

lemma find_app_Commands:
  "find (\<lambda>c. Name c = name) (app_Commands h w p) =
     (if name = ''pods''
      then Some \<lparr>Name = ''pods'', Action = adapt p (podsCmd w), Flags = [''namespace'']\<rparr>
      else if name = ''deploy''
      then Some \<lparr>Name = ''deploy'', Action = adapt p (deployCmd h w), Flags = []\<rparr>
      else None)"
  by (simp add: app_Commands_def)

lemma sent_App_Run:
  assumes "App_Run w (app_Commands h w (SendMessage k)) arguments = (buf, effs, crash)"
  shows "fst ` set (sent effs) \<subseteq> {k}"
proof (cases "tl arguments")
  case Nil
  with assms show ?thesis by (simp add: App_Run_def)
next
  case (Cons name rest)
  consider (pods) "name = ''pods''" | (deploy) "name = ''deploy''"
    | (unknown) "name \<noteq> ''pods''" "name \<noteq> ''deploy''"
    by blast
  then show ?thesis
  proof cases
    case pods
    show ?thesis
    proof (cases "cli_parse_flags w [''namespace''] rest")
      case (Inl usage)
      with assms Cons pods show ?thesis
        by (simp add: App_Run_def find_app_Commands)
    next
      case (Inr ctx)
      obtain es r where run: "podsCmd w (SendMessage k) ctx = (es, r)"
        by (cases "podsCmd w (SendMessage k) ctx")
      have "effs = es"
        using assms Cons pods Inr run
        by (cases r) (simp_all add: App_Run_def find_app_Commands adapt_def)
      with sent_podsCmd [of w k ctx] run show ?thesis by simp
    qed
  next
    case deploy
    show ?thesis
    proof (cases "cli_parse_flags w [] rest")
      case (Inl usage)
      with assms Cons deploy show ?thesis
        by (simp add: App_Run_def find_app_Commands)
    next
      case (Inr ctx)
      obtain es r where run: "deployCmd h w (SendMessage k) ctx = (es, r)"
        by (cases "deployCmd h w (SendMessage k) ctx")
      have "effs = es"
        using assms Cons deploy Inr run
        by (cases r) (simp_all add: App_Run_def find_app_Commands adapt_def)
      with sent_deployCmd [of h w k ctx] run show ?thesis by simp
    qed
  next
    case unknown
    with assms Cons show ?thesis
      by (simp add: App_Run_def find_app_Commands)
  qed
qed

lemma handle_event_ignored:
  "Data c = MessageEvent user text channel \<Longrightarrow> user = uid \<or> \<not> HasPrefix text ''!'' \<Longrightarrow>
   handle_event h w uid ch c = ([LogPrintf ''%s %T'' [Type c, ''*slack.MessageEvent'']], Continue)"
  by (auto simp: handle_event_def Let_def)

lemma event_loop_ignored:
  "\<forall>c \<in> set feed. \<exists>user text channel.
      Data c = MessageEvent user text channel \<and> (user = uid \<or> \<not> HasPrefix text ''!'') \<Longrightarrow>
   event_loop h ws uid ch n feed =
     (map (\<lambda>c. LogPrintf ''%s %T'' [Type c, ''*slack.MessageEvent'']) feed, Return None)"
proof (induction feed arbitrary: n)
  case Nil
  then show ?case by simp
next
  case (Cons c cs)
  from Cons.prems obtain u t k where
    c: "Data c = MessageEvent u t k" "u = uid \<or> \<not> HasPrefix t ''!''"
    by auto
  have rest: "event_loop h ws uid ch (Suc n) cs =
      (map (\<lambda>c. LogPrintf ''%s %T'' [Type c, ''*slack.MessageEvent'']) cs, Return None)"
    using Cons.IH Cons.prems by simp
  show ?case
    by (simp add: handle_event_ignored [OF c] rest)
qed

lemma handle_event_command:
  assumes "Data c = MessageEvent user txt channel"
    and "user \<noteq> uid"
    and "HasPrefix txt ''!''"
  shows "handle_event h w uid channelID c =
     (let l = LogPrintf ''%s %T'' [Type c, ''*slack.MessageEvent''] in
      case shellwords_Parse w (TrimPrefix txt ''!'') of
        Inl err \<Rightarrow> ([l, SendMessage channel (''error: '' @ err)], Continue)
      | Inr args \<Rightarrow>
          (case App_Run w (app_Commands h w (SendMessage channel)) (''foo'' # args) of
             (buf, effs, Some msg) \<Rightarrow> (l # effs, Crashed msg)
           | (buf, effs, None) \<Rightarrow>
               (l # effs @
                  (if buf \<noteq> '''' then [SendMessage channel (''```'' @ buf @ ''```'')] else []),
                Continue)))"
  using assms by (simp add: handle_event_def Let_def split: sum.splits prod.splits option.splits)

section \<open>Properties of the deploy command\<close>

text \<open>
  Claim C1, as amended. Revision resolution skips the commits whose identifier is absent
  (\<^verbatim>\<open>nil\<close>), not those whose identifier is the empty string: when the first commit
  with an identifier present carries at least 12 characters, the short revision is the
  first 12 characters of that identifier, and \<^verbatim>\<open>deploy\<close> announces the image built from
  it. For the list of a commit without identifier followed by
  \<^verbatim>\<open>abcdef1234567890\<close> the short revision is \<^verbatim>\<open>abcdef123456\<close>.
\<close>

theorem C1_resolution:
  assumes "find (\<lambda>c. SHA c \<noteq> None) list = Some c"
    and "SHA c = Some s"
    and "12 \<le> length s"
    and "ListCommits w (GithubToken h) (GithubOrg h) (GithubRepo h) = Inr list"
  shows "deployCmd_sha list = Inr (take 12 s) \<and>
         p (''deploying image '' @ DockerImagePrefix h @ '':'' @ take 12 s)
           \<in> set (fst (deployCmd h w p ctx))"
proof -
  have sha: "deployCmd_sha list = Inr (take 12 s)"
    using deployCmd_sha_present [OF assms(1,2)] assms(3) by (simp add: slice_def)
  have ne: "take 12 s \<noteq> ''''"
    using assms(3) by auto
  have "p (''deploying image '' @ DockerImagePrefix h @ '':'' @ take 12 s)
          \<in> set (fst (deployCmd h w p ctx))"
    using assms(4) sha ne
    by (simp add: deployCmd_def Let_def split: prod.splits option.splits)
  with sha show ?thesis by simp
qed

text \<open>The example of C1 with the first identifier absent.\<close>

theorem C1_resolution_witness:
  "deployCmd_sha [\<lparr>SHA = None\<rparr>, \<lparr>SHA = Some ''abcdef1234567890''\<rparr>] = Inr ''abcdef123456'' \<and>
   SendMessage ''C1'' ''deploying image myimage:abcdef123456''
     \<in> set (fst (deployCmd demo_handler
          (demo_world [\<lparr>SHA = None\<rparr>, \<lparr>SHA = Some ''abcdef1234567890''\<rparr>] (\<lambda>argv. ('''', None)))
          (SendMessage ''C1'') (\<lambda>name. '''')))"
  using C1_resolution [of "[\<lparr>SHA = None\<rparr>, \<lparr>SHA = Some ''abcdef1234567890''\<rparr>]"
      "\<lparr>SHA = Some ''abcdef1234567890''\<rparr>" "''abcdef1234567890''"
      "demo_world [\<lparr>SHA = None\<rparr>, \<lparr>SHA = Some ''abcdef1234567890''\<rparr>] (\<lambda>argv. ('''', None))"
      demo_handler "SendMessage ''C1''" "\<lambda>name. ''''"]
  by (simp add: demo_world_def demo_handler_def)

text \<open>
  The list of claim C1 as the specification writes it, with the first identifier the
  empty string: the commit is not skipped, the slice \<^verbatim>\<open>s[0:12]\<close> of the empty string
  panics, and no short revision is resolved.
\<close>

theorem C1_empty_identifier_counterexample:
  "deployCmd_sha [\<lparr>SHA = Some ''''\<rparr>, \<lparr>SHA = Some ''abcdef1234567890''\<rparr>]
     = Inl ''slice bounds out of range'' \<and>
   deployCmd_sha [\<lparr>SHA = Some ''''\<rparr>, \<lparr>SHA = Some ''abcdef1234567890''\<rparr>]
     \<noteq> Inr ''abcdef123456''"
  by (simp add: slice_def)

text \<open>
  Claim C2. When the set-image subprocess reports failure, \<^verbatim>\<open>deploy\<close> prints
  \<^verbatim>\<open>ERROR: \<close> followed by the captured output and nothing after it, never starts the
  rollout-status subprocess, and returns \<^verbatim>\<open>nil\<close>.
\<close>

theorem C2_set_image_failure:
  assumes "ListCommits w (GithubToken h) (GithubOrg h) (GithubRepo h) = Inr list"
    and "deployCmd_sha list = Inr sha"
    and "sha \<noteq> ''''"
    and "img = DockerImagePrefix h @ '':'' @ sha"
    and "CombinedOutput w (set_image_argv h img) = (b, Some err)"
  shows "deployCmd h w p ctx =
           ([p ''about to deploy'', ListCommitsCall (GithubOrg h) (GithubRepo h),
             p (itoa (length list) @ '' commits''), p (''deploying image '' @ img),
             Exec (set_image_argv h img), p (''ERROR: '' @ b)],
            Return None) \<and>
         execs (fst (deployCmd h w (SendMessage channel) ctx)) = [set_image_argv h img] \<and>
         Exec (rollout_status_argv h) \<notin> set (fst (deployCmd h w (SendMessage channel) ctx)) \<and>
         last (sent (fst (deployCmd h w (SendMessage channel) ctx))) = (channel, ''ERROR: '' @ b)"
proof -
  have run: "\<And>q. deployCmd h w q ctx =
           ([q ''about to deploy'', ListCommitsCall (GithubOrg h) (GithubRepo h),
             q (itoa (length list) @ '' commits''), q (''deploying image '' @ img),
             Exec (set_image_argv h img), q (''ERROR: '' @ b)],
            Return None)"
    using assms by (simp add: deployCmd_def Let_def)
  have differ: "set_image_argv h img \<noteq> rollout_status_argv h"
    by (simp add: set_image_argv_def rollout_status_argv_def)
  show ?thesis
    using differ by (simp add: run)
qed

text \<open>C2 on a single commit, with a subprocess that fails.\<close>

theorem C2_set_image_failure_witness:
  "deployCmd demo_handler
      (demo_world [\<lparr>SHA = Some ''1234567890ab''\<rparr>] (\<lambda>argv. (''no such deployment'', Some ''exit status 1'')))
      (SendMessage ''C1'') (\<lambda>name. '''') =
     ([SendMessage ''C1'' ''about to deploy'', ListCommitsCall ''org'' ''repo'',
       SendMessage ''C1'' ''1 commits'', SendMessage ''C1'' ''deploying image myimage:1234567890ab'',
       Exec [''kubectl'', ''-n'', ''prod'', ''set'', ''image'', ''deployments/web'',
             ''*=myimage:1234567890ab''],
       SendMessage ''C1'' ''ERROR: no such deployment''],
      Return None)"
  using C2_set_image_failure [of
      "demo_world [\<lparr>SHA = Some ''1234567890ab''\<rparr>] (\<lambda>argv. (''no such deployment'', Some ''exit status 1''))"
      demo_handler "[\<lparr>SHA = Some ''1234567890ab''\<rparr>]" "''1234567890ab''" "''myimage:1234567890ab''"
      "''no such deployment''" "''exit status 1''" "SendMessage ''C1''" "\<lambda>name. ''''" "''C1''"]
  by (simp add: demo_world_def demo_handler_def slice_def set_image_argv_def itoa.simps)

text \<open>
  Claim C3. When a non-empty short revision is resolved and both subprocesses succeed,
  \<^verbatim>\<open>deploy\<close> prints, in this order: \<^verbatim>\<open>about to deploy\<close>, the commit count,
  \<^verbatim>\<open>deploying image \<close> with the prefix, a colon and the short revision, the output of
  set-image, the output of rollout-status, and \<^verbatim>\<open>finished deployment\<close>. In any world,
  the last message sent is \<^verbatim>\<open>finished deployment\<close> only if both subprocesses
  succeeded.
\<close>

theorem C3_full_success:
  assumes "ListCommits w (GithubToken h) (GithubOrg h) (GithubRepo h) = Inr list"
    and "deployCmd_sha list = Inr sha"
    and "sha \<noteq> ''''"
    and "img = DockerImagePrefix h @ '':'' @ sha"
    and "CombinedOutput w (set_image_argv h img) = (b, None)"
    and "CombinedOutput w (rollout_status_argv h) = (b', None)"
  shows "deployCmd h w p ctx =
           ([p ''about to deploy'', ListCommitsCall (GithubOrg h) (GithubRepo h),
             p (itoa (length list) @ '' commits''), p (''deploying image '' @ img),
             Exec (set_image_argv h img), p b,
             Exec (rollout_status_argv h), p b', p ''finished deployment''],
            Return None) \<and>
         sent (fst (deployCmd h w (SendMessage channel) ctx)) =
           [(channel, ''about to deploy''), (channel, itoa (length list) @ '' commits''),
            (channel, ''deploying image '' @ img), (channel, b), (channel, b'),
            (channel, ''finished deployment'')] \<and>
         (\<forall>w'. last (sent (fst (deployCmd h w' (SendMessage channel) ctx))) =
                  (channel, ''finished deployment'') \<longrightarrow>
               (\<exists>list' sha' c c'.
                  ListCommits w' (GithubToken h) (GithubOrg h) (GithubRepo h) = Inr list' \<and>
                  deployCmd_sha list' = Inr sha' \<and> sha' \<noteq> '''' \<and>
                  CombinedOutput w' (set_image_argv h (DockerImagePrefix h @ '':'' @ sha')) = (c, None) \<and>
                  CombinedOutput w' (rollout_status_argv h) = (c', None)))"
proof -
  have run: "\<And>q. deployCmd h w q ctx =
           ([q ''about to deploy'', ListCommitsCall (GithubOrg h) (GithubRepo h),
             q (itoa (length list) @ '' commits''), q (''deploying image '' @ img),
             Exec (set_image_argv h img), q b,
             Exec (rollout_status_argv h), q b', q ''finished deployment''],
            Return None)"
    using assms by (simp add: deployCmd_def Let_def)
  show ?thesis
    using finished_last [of h _ channel ctx] by (simp add: run)
qed

text \<open>
  C3 for the commit \<^verbatim>\<open>1234567890ab\<close> and the prefix \<^verbatim>\<open>myimage\<close>: the image
  reference is \<^verbatim>\<open>myimage:1234567890ab\<close>.
\<close>

theorem C3_full_success_witness:
  "deployCmd demo_handler
      (demo_world [\<lparr>SHA = Some ''1234567890ab''\<rparr>] (\<lambda>argv. (''done'', None)))
      (SendMessage ''C1'') (\<lambda>name. '''') =
     ([SendMessage ''C1'' ''about to deploy'', ListCommitsCall ''org'' ''repo'',
       SendMessage ''C1'' ''1 commits'', SendMessage ''C1'' ''deploying image myimage:1234567890ab'',
       Exec [''kubectl'', ''-n'', ''prod'', ''set'', ''image'', ''deployments/web'',
             ''*=myimage:1234567890ab''],
       SendMessage ''C1'' ''done'',
       Exec [''kubectl'', ''-n'', ''prod'', ''rollout'', ''status'', ''deployments/web''],
       SendMessage ''C1'' ''done'', SendMessage ''C1'' ''finished deployment''],
      Return None)"
  using C3_full_success [of
      "demo_world [\<lparr>SHA = Some ''1234567890ab''\<rparr>] (\<lambda>argv. (''done'', None))"
      demo_handler "[\<lparr>SHA = Some ''1234567890ab''\<rparr>]" "''1234567890ab''" "''myimage:1234567890ab''"
      "''done''" "''done''" "SendMessage ''C1''" "\<lambda>name. ''''" "''C1''"]
  by (simp add: demo_world_def demo_handler_def slice_def set_image_argv_def
        rollout_status_argv_def itoa.simps)

text \<open>
  Claim C4, as amended. When no commit of the fetched list has an identifier present
  (the empty list included), \<^verbatim>\<open>deploy\<close> returns the error \<^verbatim>\<open>no sha found\<close>, has
  printed \<^verbatim>\<open>about to deploy\<close> and nothing else, and starts no subprocess.
\<close>

theorem C4_no_sha_found:
  assumes "ListCommits w (GithubToken h) (GithubOrg h) (GithubRepo h) = Inr list"
    and "find (\<lambda>c. SHA c \<noteq> None) list = None"
  shows "deployCmd h w p ctx =
           ([p ''about to deploy'', ListCommitsCall (GithubOrg h) (GithubRepo h)],
            Return (Some ''no sha found'')) \<and>
         sent (fst (deployCmd h w (SendMessage channel) ctx)) = [(channel, ''about to deploy'')] \<and>
         execs (fst (deployCmd h w (SendMessage channel) ctx)) = []"
proof -
  have run: "\<And>q. deployCmd h w q ctx =
      ([q ''about to deploy'', ListCommitsCall (GithubOrg h) (GithubRepo h)],
       Return (Some ''no sha found''))"
    using assms(1) deployCmd_sha_absent [OF assms(2)] by (simp add: deployCmd_def)
  show ?thesis
    by (simp add: run)
qed

text \<open>C4 on the empty commit list.\<close>

theorem C4_no_sha_found_witness:
  "deployCmd demo_handler (demo_world [] (\<lambda>argv. ('''', None))) (SendMessage ''C1'') (\<lambda>name. '''') =
     ([SendMessage ''C1'' ''about to deploy'', ListCommitsCall ''org'' ''repo''],
      Return (Some ''no sha found''))"
  using C4_no_sha_found [of "demo_world [] (\<lambda>argv. ('''', None))" demo_handler "[]"
      "SendMessage ''C1''" "\<lambda>name. ''''" "''C1''"]
  by (simp add: demo_world_def demo_handler_def)

text \<open>
  A list in which no commit has a non-empty identifier, the only identifier being the
  empty string: \<^verbatim>\<open>deploy\<close> panics on the slice and does not return
  \<^verbatim>\<open>no sha found\<close>.
\<close>

theorem C4_empty_identifier_counterexample:
  "find (\<lambda>c. SHA c \<noteq> None \<and> SHA c \<noteq> Some '''') [\<lparr>SHA = Some ''''\<rparr>] = None \<and>
   deployCmd demo_handler (demo_world [\<lparr>SHA = Some ''''\<rparr>] (\<lambda>argv. ('''', None)))
       (SendMessage ''C1'') (\<lambda>name. '''') =
     ([SendMessage ''C1'' ''about to deploy'', ListCommitsCall ''org'' ''repo''],
      Panicked ''slice bounds out of range'') \<and>
   snd (deployCmd demo_handler (demo_world [\<lparr>SHA = Some ''''\<rparr>] (\<lambda>argv. ('''', None)))
       (SendMessage ''C1'') (\<lambda>name. '''')) \<noteq> Return (Some ''no sha found'')"
  by (simp add: deployCmd_def demo_world_def demo_handler_def slice_def)

text \<open>
  Claim C9. The slice \<^verbatim>\<open>s[0:12]\<close> is taken of the first identifier that is present,
  whatever its length: when that identifier has fewer than 12 characters (the empty
  string included) the slice is out of bounds, revision resolution panics, and so does
  \<^verbatim>\<open>deploy\<close>, after \<^verbatim>\<open>about to deploy\<close> and the commit request. The example shows
  that the branch is reached.
\<close>

theorem C9_short_identifier_panics:
  assumes "find (\<lambda>c. SHA c \<noteq> None) list = Some c"
    and "SHA c = Some s"
    and "length s < 12"
    and "ListCommits w (GithubToken h) (GithubOrg h) (GithubRepo h) = Inr list"
  shows "slice s 0 12 = Inl ''slice bounds out of range'' \<and>
         deployCmd_sha list = Inl ''slice bounds out of range'' \<and>
         deployCmd h w p ctx =
           ([p ''about to deploy'', ListCommitsCall (GithubOrg h) (GithubRepo h)],
            Panicked ''slice bounds out of range'')"
proof -
  have sl: "slice s 0 12 = Inl ''slice bounds out of range''"
    using assms(3) by (simp add: slice_def)
  then have sha: "deployCmd_sha list = Inl ''slice bounds out of range''"
    using deployCmd_sha_present [OF assms(1,2)] by simp
  show ?thesis
    using sl sha assms(4) by (simp add: deployCmd_def)
qed

text \<open>C9 on an identifier of six characters.\<close>

theorem C9_short_identifier_panics_witness:
  "slice ''abc123'' 0 12 = Inl ''slice bounds out of range'' \<and>
   deployCmd_sha [\<lparr>SHA = None\<rparr>, \<lparr>SHA = Some ''abc123''\<rparr>] = Inl ''slice bounds out of range'' \<and>
   deployCmd demo_handler (demo_world [\<lparr>SHA = None\<rparr>, \<lparr>SHA = Some ''abc123''\<rparr>] (\<lambda>argv. ('''', None)))
       (SendMessage ''C1'') (\<lambda>name. '''') =
     ([SendMessage ''C1'' ''about to deploy'', ListCommitsCall ''org'' ''repo''],
      Panicked ''slice bounds out of range'')"
  using C9_short_identifier_panics [of "[\<lparr>SHA = None\<rparr>, \<lparr>SHA = Some ''abc123''\<rparr>]"
      "\<lparr>SHA = Some ''abc123''\<rparr>" "''abc123''"
      "demo_world [\<lparr>SHA = None\<rparr>, \<lparr>SHA = Some ''abc123''\<rparr>] (\<lambda>argv. ('''', None))"
      demo_handler "SendMessage ''C1''" "\<lambda>name. ''''"]
  by (simp add: demo_world_def demo_handler_def)

section \<open>Properties of the pods command\<close>

text \<open>
  Claim C8. \<^verbatim>\<open>pods\<close> first prints \<^verbatim>\<open>about to list pods\<close> and runs the subprocess;
  when it fails, the output goes to the local log and nothing more is sent to chat;
  when it succeeds, the output is printed between two fences of three backquotes. The
  command returns \<^verbatim>\<open>nil\<close> in both cases.
\<close>

theorem C8_pods:
  assumes "argv = ''kubectl'' # ''get'' # ''pods'' #
                    (if ctx ''namespace'' \<noteq> '''' then [''-n'', ctx ''namespace''] else [])"
    and "CombinedOutput w argv = (b, err)"
  shows "podsCmd w p ctx =
           ([p ''about to list pods'', Exec argv,
             (if err = None then p (''```'' @ b @ ''```'') else LogPrintf ''err=%q'' [b])],
            Return None) \<and>
         sent (fst (podsCmd w (SendMessage channel) ctx)) =
           (if err = None
            then [(channel, ''about to list pods''), (channel, ''```'' @ b @ ''```'')]
            else [(channel, ''about to list pods'')])"
  using assms by (cases err) (simp_all add: podsCmd_def)

text \<open>C8 on a failing subprocess, with a namespace.\<close>

theorem C8_pods_witness:
  "podsCmd (demo_world [] (\<lambda>argv. (''refused'', Some ''exit status 1''))) (SendMessage ''C1'')
       (\<lambda>name. ''kube-system'') =
     ([SendMessage ''C1'' ''about to list pods'',
       Exec [''kubectl'', ''get'', ''pods'', ''-n'', ''kube-system''],
       LogPrintf ''err=%q'' [''refused'']],
      Return None) \<and>
   sent (fst (podsCmd (demo_world [] (\<lambda>argv. (''refused'', Some ''exit status 1'')))
       (SendMessage ''C1'') (\<lambda>name. ''kube-system''))) = [(''C1'', ''about to list pods'')]"
  using C8_pods [of "[''kubectl'', ''get'', ''pods'', ''-n'', ''kube-system'']" "\<lambda>name. ''kube-system''"
      "demo_world [] (\<lambda>argv. (''refused'', Some ''exit status 1''))" "''refused''"
      "Some ''exit status 1''" "SendMessage ''C1''" "''C1''"]
  by (simp add: demo_world_def)

section \<open>Properties of startup and of the event loop\<close>

text \<open>
  Claim C5. After a successful authentication and channel listing, when the number of
  channels that have the bot among their members is not 1, \<^verbatim>\<open>run\<close> returns the error
  \<^verbatim>\<open>must only be in one channel\<close> whatever the feed holds, having written one log line
  and nothing else, and \<^verbatim>\<open>main\<close> exits with status 1; when there is exactly one such
  channel, the event loop runs with that channel.
\<close>

theorem C5_single_channel:
  assumes "AuthTest cl (SlackToken h) = Inr uid"
    and "GetChannels cl True = Inr list"
  shows "(length (filter (\<lambda>c. uid \<in> set (Members c)) list) \<noteq> 1 \<longrightarrow>
            run h cl ws feed =
              ([LogPrintf uid []], Return (Some ''must only be in one channel'')) \<and>
            (h = newHandler Getenv \<longrightarrow>
               main_go Getenv cl ws feed =
                 ([LogPrintf uid [], LogFatal ''must only be in one channel''], Exit 1))) \<and>
         (\<forall>c. filter (\<lambda>c. uid \<in> set (Members c)) list = [c] \<longrightarrow>
            run h cl ws feed =
              (case event_loop h ws uid (ID c) 0 feed of
                 (effs, r) \<Rightarrow>
                   ([LogPrintf uid [], LogPrintf ''channel=%s'' [ID c]] @ effs, r)))"
proof -
  let ?mine = "filter (\<lambda>c. uid \<in> set (Members c)) list"
  have chans: "collect_chans uid [] list = map ID ?mine"
    by (simp add: collect_chans_eq)
  have refuse: "run h cl ws feed =
      ([LogPrintf uid []], Return (Some ''must only be in one channel''))"
    if "length ?mine \<noteq> 1"
    using assms that by (simp add: run_def chans)
  have fatal: "main_go Getenv cl ws feed =
      ([LogPrintf uid [], LogFatal ''must only be in one channel''], Exit 1)"
    if "length ?mine \<noteq> 1" and "h = newHandler Getenv"
    using refuse [OF that(1)] that(2) by (simp add: main_go_def)
  have accept: "run h cl ws feed =
      (case event_loop h ws uid (ID c) 0 feed of
         (effs, r) \<Rightarrow> ([LogPrintf uid [], LogPrintf ''channel=%s'' [ID c]] @ effs, r))"
    if "?mine = [c]" for c
    using assms that by (simp add: run_def chans Let_def)
  show ?thesis
    using refuse fatal accept by blast
qed

text \<open>C5 on a bot that is in two channels, and on a bot that is in one.\<close>

theorem C5_single_channel_witness:
  "run (newHandler (\<lambda>key. ''''))
       (demo_client [\<lparr>ID = ''C1'', Members = [''U1'']\<rparr>, \<lparr>ID = ''C2'', Members = [''U7'', ''U1'']\<rparr>])
       (\<lambda>n. demo_world [] (\<lambda>argv. ('''', None)))
       [\<lparr>Type = ''hello'', Data = HelloEvent\<rparr>] =
     ([LogPrintf ''U1'' []], Return (Some ''must only be in one channel'')) \<and>
   main_go (\<lambda>key. '''')
       (demo_client [\<lparr>ID = ''C1'', Members = [''U1'']\<rparr>, \<lparr>ID = ''C2'', Members = [''U7'', ''U1'']\<rparr>])
       (\<lambda>n. demo_world [] (\<lambda>argv. ('''', None)))
       [\<lparr>Type = ''hello'', Data = HelloEvent\<rparr>] =
     ([LogPrintf ''U1'' [], LogFatal ''must only be in one channel''], Exit 1) \<and>
   run (newHandler (\<lambda>key. ''''))
       (demo_client [\<lparr>ID = ''C1'', Members = [''U7'']\<rparr>, \<lparr>ID = ''C2'', Members = [''U7'', ''U1'']\<rparr>])
       (\<lambda>n. demo_world [] (\<lambda>argv. ('''', None)))
       [\<lparr>Type = ''hello'', Data = HelloEvent\<rparr>] =
     ([LogPrintf ''U1'' [], LogPrintf ''channel=%s'' [''C2''],
       LogPrintf ''%s %T'' [''hello'', ''*slack.HelloEvent''], SendMessage ''C2'' ''Hi there''],
      Return None)"
  using
    C5_single_channel [of
      "demo_client [\<lparr>ID = ''C1'', Members = [''U1'']\<rparr>, \<lparr>ID = ''C2'', Members = [''U7'', ''U1'']\<rparr>]"
      "newHandler (\<lambda>key. '''')" "''U1''"
      "[\<lparr>ID = ''C1'', Members = [''U1'']\<rparr>, \<lparr>ID = ''C2'', Members = [''U7'', ''U1'']\<rparr>]"
      "\<lambda>n. demo_world [] (\<lambda>argv. ('''', None))" "[\<lparr>Type = ''hello'', Data = HelloEvent\<rparr>]"
      "\<lambda>key. ''''"]
    C5_single_channel [of
      "demo_client [\<lparr>ID = ''C1'', Members = [''U7'']\<rparr>, \<lparr>ID = ''C2'', Members = [''U7'', ''U1'']\<rparr>]"
      "newHandler (\<lambda>key. '''')" "''U1''"
      "[\<lparr>ID = ''C1'', Members = [''U7'']\<rparr>, \<lparr>ID = ''C2'', Members = [''U7'', ''U1'']\<rparr>]"
      "\<lambda>n. demo_world [] (\<lambda>argv. ('''', None))" "[\<lparr>Type = ''hello'', Data = HelloEvent\<rparr>]"
      "\<lambda>key. ''''"]
  by (simp add: demo_client_def handle_event_def)

text \<open>
  Claim C6. A message event written by the bot itself, or whose text does not start
  with \<^verbatim>\<open>!\<close>, leaves one line in the local log and nothing else, and the loop goes on
  with the next event; a feed of such events sends no chat message and starts no
  subprocess.
\<close>

theorem C6_event_filtering:
  assumes "Data c = MessageEvent user text channel"
    and "user = uid \<or> \<not> HasPrefix text ''!''"
  shows "handle_event h w uid ch c =
           ([LogPrintf ''%s %T'' [Type c, ''*slack.MessageEvent'']], Continue) \<and>
         event_loop h ws uid ch n (c # cs) =
           (case event_loop h ws uid ch (Suc n) cs of
              (effs, r) \<Rightarrow> (LogPrintf ''%s %T'' [Type c, ''*slack.MessageEvent''] # effs, r)) \<and>
         ((\<forall>c' \<in> set feed. \<exists>u t k.
              Data c' = MessageEvent u t k \<and> (u = uid \<or> \<not> HasPrefix t ''!'')) \<longrightarrow>
            sent (fst (event_loop h ws uid ch n feed)) = [] \<and>
            execs (fst (event_loop h ws uid ch n feed)) = [] \<and>
            snd (event_loop h ws uid ch n feed) = Return None)"
proof -
  have one: "\<And>w. handle_event h w uid ch c =
      ([LogPrintf ''%s %T'' [Type c, ''*slack.MessageEvent'']], Continue)"
    using handle_event_ignored [OF assms] .
  have loop: "event_loop h ws uid ch n (c # cs) =
      (case event_loop h ws uid ch (Suc n) cs of
         (effs, r) \<Rightarrow> (LogPrintf ''%s %T'' [Type c, ''*slack.MessageEvent''] # effs, r))"
    by (simp add: one)
  have all: "sent (fst (event_loop h ws uid ch n feed)) = [] \<and>
      execs (fst (event_loop h ws uid ch n feed)) = [] \<and>
      snd (event_loop h ws uid ch n feed) = Return None"
    if "\<forall>c' \<in> set feed. \<exists>u t k.
          Data c' = MessageEvent u t k \<and> (u = uid \<or> \<not> HasPrefix t ''!'')"
    by (simp add: event_loop_ignored [OF that] sent_logs execs_logs)
  show ?thesis
    using one loop all by blast
qed

text \<open>C6 on a command written by the bot itself, followed by a message that is no command.\<close>

theorem C6_event_filtering_witness:
  "handle_event demo_handler (demo_world [] (\<lambda>argv. ('''', None))) ''U1'' ''C1''
      \<lparr>Type = ''message'', Data = MessageEvent ''U1'' ''!deploy'' ''C1''\<rparr> =
     ([LogPrintf ''%s %T'' [''message'', ''*slack.MessageEvent'']], Continue) \<and>
   sent (fst (event_loop demo_handler (\<lambda>n. demo_world [] (\<lambda>argv. ('''', None))) ''U1'' ''C1'' 0
      [\<lparr>Type = ''message'', Data = MessageEvent ''U1'' ''!deploy'' ''C1''\<rparr>,
       \<lparr>Type = ''message'', Data = MessageEvent ''U2'' ''deploy please'' ''C1''\<rparr>])) = []"
  using C6_event_filtering [of "\<lparr>Type = ''message'', Data = MessageEvent ''U1'' ''!deploy'' ''C1''\<rparr>"
      "''U1''" "''!deploy''" "''C1''" "''U1''" demo_handler
      "demo_world [] (\<lambda>argv. ('''', None))" "''C1''" "\<lambda>n. demo_world [] (\<lambda>argv. ('''', None))" 0 "[]"
      "[\<lparr>Type = ''message'', Data = MessageEvent ''U1'' ''!deploy'' ''C1''\<rparr>,
        \<lparr>Type = ''message'', Data = MessageEvent ''U2'' ''deploy please'' ''C1''\<rparr>]"]
  by (simp add: HasPrefix_def handle_event_def)

text \<open>
  Claim C7. For a command message whose first token is neither \<^verbatim>\<open>pods\<close> nor
  \<^verbatim>\<open>deploy\<close>, the router invokes no handler and writes the framework's text to the
  buffer; the loop then sends the buffer to the channel of the message as one fenced
  message if and only if it is not empty, and goes on.
\<close>

theorem C7_unknown_command:
  assumes "Data c = MessageEvent user txt channel"
    and "user \<noteq> uid"
    and "HasPrefix txt ''!''"
    and "shellwords_Parse w (TrimPrefix txt ''!'') = Inr (name # rest)"
    and "name \<noteq> ''pods''"
    and "name \<noteq> ''deploy''"
    and "buf = cli_usage w (name # rest)"
  shows "App_Run w (app_Commands h w (SendMessage channel)) (''foo'' # name # rest) = (buf, [], None) \<and>
         handle_event h w uid channelID c =
           (LogPrintf ''%s %T'' [Type c, ''*slack.MessageEvent''] #
              (if buf = '''' then [] else [SendMessage channel (''```'' @ buf @ ''```'')]),
            Continue)"
proof -
  have route: "App_Run w (app_Commands h w (SendMessage channel)) (''foo'' # name # rest) =
      (buf, [], None)"
    using assms(5,6,7) by (simp add: App_Run_def find_app_Commands)
  show ?thesis
    using route assms(4) by (simp add: handle_event_command [OF assms(1,2,3)])
qed

text \<open>C7 on the unknown command \<^verbatim>\<open>restart\<close>.\<close>

theorem C7_unknown_command_witness:
  "App_Run (demo_world [] (\<lambda>argv. ('''', None)))
      (app_Commands demo_handler (demo_world [] (\<lambda>argv. ('''', None))) (SendMessage ''C9''))
      [''foo'', ''restart''] = (''No help topic'', [], None) \<and>
   handle_event demo_handler (demo_world [] (\<lambda>argv. ('''', None))) ''U1'' ''C1''
      \<lparr>Type = ''message'', Data = MessageEvent ''U2'' ''!restart'' ''C9''\<rparr> =
     ([LogPrintf ''%s %T'' [''message'', ''*slack.MessageEvent''],
       SendMessage ''C9'' (''```'' @ ''No help topic'' @ ''```'')],
      Continue)"
proof -
  let ?w = "demo_world [] (\<lambda>argv. ('''', None))"
  let ?c = "\<lparr>Type = ''message'', Data = MessageEvent ''U2'' ''!restart'' ''C9''\<rparr>"
  have event: "Data ?c = MessageEvent ''U2'' ''!restart'' ''C9''"
    by simp
  have other: "''U2'' \<noteq> ''U1''"
    by simp
  have marker: "HasPrefix ''!restart'' ''!''"
    by (simp add: HasPrefix_def)
  have tokens: "shellwords_Parse ?w (TrimPrefix ''!restart'' ''!'') = Inr [''restart'']"
    by (simp add: HasPrefix_def TrimPrefix_def demo_world_def)
  have unknown: "''restart'' \<noteq> ''pods''" "''restart'' \<noteq> ''deploy''"
    by simp_all
  have usage: "''No help topic'' = cli_usage ?w [''restart'']"
    by (simp add: demo_world_def)
  from C7_unknown_command [OF event other marker tokens unknown usage, of demo_handler "''C1''"]
  show ?thesis by simp
qed

text \<open>
  Claim C10. For a message event that passes both filters, what the loop does never
  depends on the channel found at startup: the command is dispatched, and every chat
  message (the printer's output and the buffer) goes to the channel of the event. Only
  the greeting of a hello event goes to the channel found at startup.
\<close>

theorem C10_source_channel:
  assumes "Data c = MessageEvent user txt channel"
    and "user \<noteq> uid"
    and "HasPrefix txt ''!''"
  shows "handle_event h w uid channelID c = handle_event h w uid channelID' c \<and>
         fst ` set (sent (fst (handle_event h w uid channelID c))) \<subseteq> {channel} \<and>
         (\<forall>args buf effs crash.
            shellwords_Parse w (TrimPrefix txt ''!'') = Inr args \<and>
            App_Run w (app_Commands h w (SendMessage channel)) (''foo'' # args) = (buf, effs, crash) \<longrightarrow>
            fst (handle_event h w uid channelID c) =
              LogPrintf ''%s %T'' [Type c, ''*slack.MessageEvent''] # effs @
                (if crash = None \<and> buf \<noteq> ''''
                 then [SendMessage channel (''```'' @ buf @ ''```'')] else [])) \<and>
         (\<forall>c'. Data c' = HelloEvent \<longrightarrow>
            handle_event h w uid channelID c' =
              ([LogPrintf ''%s %T'' [Type c', ''*slack.HelloEvent''],
                SendMessage channelID ''Hi there''], Continue))"
proof -
  note cmd = handle_event_command [OF assms]
  have same: "handle_event h w uid channelID c = handle_event h w uid channelID' c"
    by (simp add: cmd)
  have target: "fst ` set (sent (fst (handle_event h w uid channelID c))) \<subseteq> {channel}"
  proof (cases "shellwords_Parse w (TrimPrefix txt ''!'')")
    case (Inl err)
    then show ?thesis by (simp add: cmd)
  next
    case (Inr args)
    obtain buf effs crash where
      run: "App_Run w (app_Commands h w (SendMessage channel)) (''foo'' # args) = (buf, effs, crash)"
      by (cases "App_Run w (app_Commands h w (SendMessage channel)) (''foo'' # args)")
    from sent_App_Run [OF run] Inr run show ?thesis
      by (cases crash) (auto simp: cmd sent_append)
  qed
  have dispatch: "fst (handle_event h w uid channelID c) =
      LogPrintf ''%s %T'' [Type c, ''*slack.MessageEvent''] # effs @
        (if crash = None \<and> buf \<noteq> ''''
         then [SendMessage channel (''```'' @ buf @ ''```'')] else [])"
    if "shellwords_Parse w (TrimPrefix txt ''!'') = Inr args"
      and "App_Run w (app_Commands h w (SendMessage channel)) (''foo'' # args) = (buf, effs, crash)"
    for args buf effs crash
    using that by (cases crash) (simp_all add: cmd)
  have hello: "handle_event h w uid channelID c' =
      ([LogPrintf ''%s %T'' [Type c', ''*slack.HelloEvent''],
        SendMessage channelID ''Hi there''], Continue)"
    if "Data c' = HelloEvent" for c'
    using that by (simp add: handle_event_def)
  show ?thesis
    using same target dispatch hello by blast
qed

text \<open>C10 on a command received in a channel other than the one found at startup.\<close>

theorem C10_source_channel_witness:
  "handle_event demo_handler (demo_world [] (\<lambda>argv. ('''', None))) ''U1'' ''C1''
      \<lparr>Type = ''message'', Data = MessageEvent ''U2'' ''!deploy'' ''C9''\<rparr> =
   handle_event demo_handler (demo_world [] (\<lambda>argv. ('''', None))) ''U1'' ''C9''
      \<lparr>Type = ''message'', Data = MessageEvent ''U2'' ''!deploy'' ''C9''\<rparr> \<and>
   fst ` set (sent (fst (handle_event demo_handler (demo_world [] (\<lambda>argv. ('''', None))) ''U1'' ''C1''
      \<lparr>Type = ''message'', Data = MessageEvent ''U2'' ''!deploy'' ''C9''\<rparr>))) \<subseteq> {''C9''} \<and>
   handle_event demo_handler (demo_world [] (\<lambda>argv. ('''', None))) ''U1'' ''C1''
      \<lparr>Type = ''hello'', Data = HelloEvent\<rparr> =
     ([LogPrintf ''%s %T'' [''hello'', ''*slack.HelloEvent''], SendMessage ''C1'' ''Hi there''],
      Continue)"
proof -
  let ?w = "demo_world [] (\<lambda>argv. ('''', None))"
  let ?c = "\<lparr>Type = ''message'', Data = MessageEvent ''U2'' ''!deploy'' ''C9''\<rparr>"
  let ?hello = "\<lparr>Type = ''hello'', Data = HelloEvent\<rparr>"
  have event: "Data ?c = MessageEvent ''U2'' ''!deploy'' ''C9''"
    by simp
  have other: "''U2'' \<noteq> ''U1''"
    by simp
  have marker: "HasPrefix ''!deploy'' ''!''"
    by (simp add: HasPrefix_def)
  note claim = C10_source_channel [OF event other marker, of demo_handler ?w "''C1''" "''C9''"]
  have greeting: "Data ?hello = HelloEvent"
    by simp
  from claim have "handle_event demo_handler ?w ''U1'' ''C1'' ?c =
      handle_event demo_handler ?w ''U1'' ''C9'' ?c"
    by blast
  moreover from claim have
    "fst ` set (sent (fst (handle_event demo_handler ?w ''U1'' ''C1'' ?c))) \<subseteq> {''C9''}"
    by blast
  moreover from claim greeting have "handle_event demo_handler ?w ''U1'' ''C1'' ?hello =
      ([LogPrintf ''%s %T'' [Type ?hello, ''*slack.HelloEvent''],
        SendMessage ''C1'' ''Hi there''], Continue)"
    by blast
  ultimately show ?thesis
    by simp
qed

end
